theory Spec2Isabelle
  imports Main "HOL-Library.Word"
begin

section \<open>Serialized state\<close>

text \<open>
  Modelled from the spec: the identifier constants of the \<open>Serialization\<close> namespace.
  Identifiers are the type tags of deltas and of serialized trees, and the names of
  properties. \<open>Source/Core/Tree/AutomationTrackNode.cpp\<close> only names the constants
  (\<open>MidiTrackDeltas::trackPath\<close>, ...); their declarations are not in the source file.
  Each is given a value of its own, so that any two of them differ; nothing else about
  the values is used.
\<close>

type_synonym Identifier = string

definition trackPath :: Identifier where
  "trackPath = ''trackPath''"

definition trackColour :: Identifier where
  "trackColour = ''trackColour''"

definition trackInstrument :: Identifier where
  "trackInstrument = ''trackInstrument''"

definition trackController :: Identifier where
  "trackController = ''trackController''"

definition eventsAdded :: Identifier where
  "eventsAdded = ''eventsAdded''"

definition clipsAdded :: Identifier where
  "clipsAdded = ''clipsAdded''"

definition delta :: Identifier where
  "delta = ''delta''"

definition automationEvent :: Identifier where
  "automationEvent = ''automationEvent''"

text \<open>
  Modelled from the spec: the Serialized State primitive (class \<open>SerializedData\<close> and the
  variant it stores in properties), which is not in the source file. The spec gives it as a
  labelled tree of ordered named properties and ordered child nodes, with \<open>setProperty\<close>,
  \<open>getProperty\<close>, \<open>appendChild\<close>, a type tag on the node, and iteration over the children
  filtered by a type tag (the macro \<open>forEachChildWithType\<close>).
\<close>

datatype var = VoidVar | IntVar int | StringVar string

datatype SerializedData =
  SerializedData (getType: Identifier)
                 (properties: "(Identifier \<times> var) list")
                 (children: "SerializedData list")

definition newSerializedData :: "Identifier \<Rightarrow> SerializedData" where
  "newSerializedData t = SerializedData t [] []"

fun setProp :: "Identifier \<Rightarrow> var \<Rightarrow> (Identifier \<times> var) list \<Rightarrow> (Identifier \<times> var) list" where
  "setProp k v [] = [(k, v)]"
| "setProp k v ((k', v') # ps) = (if k = k' then (k, v) # ps else (k', v') # setProp k v ps)"

definition setProperty :: "Identifier \<Rightarrow> var \<Rightarrow> SerializedData \<Rightarrow> SerializedData" where
  "setProperty k v tree = SerializedData (getType tree) (setProp k v (properties tree)) (children tree)"

definition getProperty :: "Identifier \<Rightarrow> SerializedData \<Rightarrow> var" where
  "getProperty k tree = (case map_of (properties tree) k of None \<Rightarrow> VoidVar | Some v \<Rightarrow> v)"

definition appendChild :: "SerializedData \<Rightarrow> SerializedData \<Rightarrow> SerializedData" where
  "appendChild c tree = SerializedData (getType tree) (properties tree) (children tree @ [c])"

definition hasTypeData :: "SerializedData \<Rightarrow> Identifier \<Rightarrow> bool" where
  "hasTypeData tree t = (getType tree = t)"

definition childrenWithType :: "SerializedData \<Rightarrow> Identifier \<Rightarrow> SerializedData list" where
  "childrenWithType tree t = filter (\<lambda>c. hasTypeData c t) (children tree)"

section \<open>Deltas\<close>

text \<open>
  Modelled from the spec: the classes \<open>VCS::Delta\<close> and \<open>VCS::DeltaDescription\<close>, which are
  declared outside the source file. The spec gives a delta record a kind, fixed once
  created, and a description. \<open>getDelta\<close> builds a description either from a text alone
  or from a text with a placeholder and a number; the constructor builds a delta from a
  description and a type. Both are kept as the values they are constructed from.
\<close>

datatype DeltaDescription =
  DeltaDescription (stringToTranslate: string) (intParameter: "int option")

record Delta =
  description :: DeltaDescription
  deltaType :: Identifier

definition createDelta :: "DeltaDescription \<Rightarrow> Identifier \<Rightarrow> Delta" where
  "createDelta desc t = \<lparr>description = desc, deltaType = t\<rparr>"

definition emptyDescription :: DeltaDescription where
  "emptyDescription = DeltaDescription [] None"

definition hasType :: "Delta \<Rightarrow> Identifier \<Rightarrow> bool" where
  "hasType d t = (deltaType d = t)"

definition setDescription :: "DeltaDescription \<Rightarrow> Delta \<Rightarrow> Delta" where
  "setDescription desc d = d\<lparr>description := desc\<rparr>"

section \<open>The track node\<close>

text \<open>
  A colour is a 32-bit ARGB value. Its conversions to and from a string, the
  conversions of a stored property to a string and to an integer, the serialization of
  one event and of one clip, and the computation of the beat range of a list of events
  belong to the library and to the domain classes. The functions of the source file
  only call them, so they are taken as parameters.
\<close>

type_synonym Colour = "32 word"

record ('e, 'k, 'r) externals =
  varToString :: "var \<Rightarrow> string"
  varToInt :: "var \<Rightarrow> int"
  colourToString :: "Colour \<Rightarrow> string"
  colourFromString :: "string \<Rightarrow> Colour"
  eventSerialize :: "'e \<Rightarrow> SerializedData"
  eventDeserialize :: "SerializedData \<Rightarrow> 'e"
  clipSerialize :: "'k \<Rightarrow> SerializedData"
  clipDeserialize :: "SerializedData \<Rightarrow> 'k"
  beatRangeOf :: "'e list \<Rightarrow> 'r"

text \<open>
  The mutation interface of the node records every call it receives, with its
  arguments, so that a setter invoked with the value already stored can be told from a
  setter that is not invoked.
\<close>

datatype call =
  SetXPath string bool
| SetTrackColour Colour bool
| SetTrackInstrumentId string bool
| SetTrackControllerNumber int bool
| SequenceReset
| CheckoutEvent SerializedData
| UpdateBeatRange bool
| PatternReset
| ImportClip SerializedData

record ('e, 'k, 'r) AutomationTrackNode =
  getTrackName :: string
  getTrackColour :: Colour
  getTrackInstrumentId :: string
  getTrackControllerNumber :: int
  sequenceEvents :: "'e list"
  sequenceBeatRange :: 'r
  patternClips :: "'k list"
  deltas :: "Delta list"
  calls :: "call list"

text \<open>
  Modelled from the spec: the setters of the base class \<open>MidiTrackNode\<close>, which are not in
  the source file. The spec asks of the domain entity a direct setter for each scalar field,
  taking the flag that suppresses the recording of history.
\<close>

definition setXPath :: "string \<Rightarrow> bool \<Rightarrow> ('e, 'k, 'r) AutomationTrackNode \<Rightarrow> ('e, 'k, 'r) AutomationTrackNode" where
  "setXPath path sendNotifications n =
     n\<lparr>getTrackName := path, calls := calls n @ [SetXPath path sendNotifications]\<rparr>"

definition setTrackColour :: "Colour \<Rightarrow> bool \<Rightarrow> ('e, 'k, 'r) AutomationTrackNode \<Rightarrow> ('e, 'k, 'r) AutomationTrackNode" where
  "setTrackColour colour sendNotifications n =
     n\<lparr>getTrackColour := colour, calls := calls n @ [SetTrackColour colour sendNotifications]\<rparr>"

definition setTrackInstrumentId :: "string \<Rightarrow> bool \<Rightarrow> ('e, 'k, 'r) AutomationTrackNode \<Rightarrow> ('e, 'k, 'r) AutomationTrackNode" where
  "setTrackInstrumentId instrumentId sendNotifications n =
     n\<lparr>getTrackInstrumentId := instrumentId,
       calls := calls n @ [SetTrackInstrumentId instrumentId sendNotifications]\<rparr>"

definition setTrackControllerNumber :: "int \<Rightarrow> bool \<Rightarrow> ('e, 'k, 'r) AutomationTrackNode \<Rightarrow> ('e, 'k, 'r) AutomationTrackNode" where
  "setTrackControllerNumber ccNumber sendNotifications n =
     n\<lparr>getTrackControllerNumber := ccNumber,
       calls := calls n @ [SetTrackControllerNumber ccNumber sendNotifications]\<rparr>"

text \<open>
  Modelled from the spec: the operations of the sequence (\<open>AutomationSequence\<close>) that
  \<open>resetEventsDelta\<close> calls, which are not in the source file. The spec has the structural
  reset clear the collection, deserialize each payload node into a new item and insert
  it, in document order, and recompute the cached beat range from the events.
\<close>

definition sequenceReset :: "('e, 'k, 'r) AutomationTrackNode \<Rightarrow> ('e, 'k, 'r) AutomationTrackNode" where
  "sequenceReset n = n\<lparr>sequenceEvents := [], calls := calls n @ [SequenceReset]\<rparr>"

definition checkoutEvent :: "('e, 'k, 'r) externals \<Rightarrow> SerializedData \<Rightarrow> ('e, 'k, 'r) AutomationTrackNode \<Rightarrow> ('e, 'k, 'r) AutomationTrackNode" where
  "checkoutEvent X e n =
     n\<lparr>sequenceEvents := sequenceEvents n @ [eventDeserialize X e],
       calls := calls n @ [CheckoutEvent e]\<rparr>"

definition updateBeatRange :: "('e, 'k, 'r) externals \<Rightarrow> bool \<Rightarrow> ('e, 'k, 'r) AutomationTrackNode \<Rightarrow> ('e, 'k, 'r) AutomationTrackNode" where
  "updateBeatRange X shouldNotify n =
     n\<lparr>sequenceBeatRange := beatRangeOf X (sequenceEvents n),
       calls := calls n @ [UpdateBeatRange shouldNotify]\<rparr>"

text \<open>
  Modelled from the spec: the operations of the pattern (\<open>Pattern\<close>) behind the clips
  delta, which are not in the source file. As for the sequence, the collection is
  cleared, and a payload node is deserialized into a new clip and inserted after the
  clips already there.
\<close>

definition patternReset :: "('e, 'k, 'r) AutomationTrackNode \<Rightarrow> ('e, 'k, 'r) AutomationTrackNode" where
  "patternReset n = n\<lparr>patternClips := [], calls := calls n @ [PatternReset]\<rparr>"

definition importClip :: "('e, 'k, 'r) externals \<Rightarrow> SerializedData \<Rightarrow> ('e, 'k, 'r) AutomationTrackNode \<Rightarrow> ('e, 'k, 'r) AutomationTrackNode" where
  "importClip X e n =
     n\<lparr>patternClips := patternClips n @ [clipDeserialize X e],
       calls := calls n @ [ImportClip e]\<rparr>"

text \<open>
  Modelled from the spec: the macros \<open>jassert\<close> and \<open>jassertfalse\<close>, which are not in the
  source file. The spec classes a failed assertion as a contract violation that halts the
  offending operation, so a failed assertion is the result \<open>Inl AssertionFailure\<close>.
  Reading \<open>deltas[index]\<close> outside the array gives no delta to call \<open>hasType\<close> on, the
  spec's index-out-of-range contract violation: the result \<open>Inl NullDelta\<close>.
\<close>

datatype fault = AssertionFailure | NullDelta

subsection \<open>Construction\<close>

text \<open>
  \<open>AutomationTrackNode::AutomationTrackNode\<close>. The argument \<open>base\<close> is the state left by
  the base-class constructor and by the constructor of the pattern, which are not in
  the source file; the constructor names the node, installs a fresh sequence and declares the
  six deltas, each with an empty description.
\<close>

definition newAutomationTrackNode :: "string \<Rightarrow> ('e, 'k, 'r) AutomationTrackNode \<Rightarrow> ('e, 'k, 'r) AutomationTrackNode" where
  "newAutomationTrackNode name base =
     base\<lparr>getTrackName := name,
          sequenceEvents := [],
          deltas := [createDelta emptyDescription trackPath,
                     createDelta emptyDescription trackColour,
                     createDelta emptyDescription trackInstrument,
                     createDelta emptyDescription trackController,
                     createDelta emptyDescription eventsAdded,
                     createDelta emptyDescription clipsAdded]\<rparr>"

subsection \<open>VCS::TrackedItem\<close>

definition getNumDeltas :: "('e, 'k, 'r) AutomationTrackNode \<Rightarrow> int" where
  "getNumDeltas n = int (length (deltas n))"

text \<open>
  \<open>getDelta\<close> is a const method that writes the description of the delta it is about
  to return: the result is the delta together with the node holding it.
\<close>

definition describeDelta :: "DeltaDescription \<Rightarrow> nat \<Rightarrow> ('e, 'k, 'r) AutomationTrackNode \<Rightarrow> ('e, 'k, 'r) AutomationTrackNode" where
  "describeDelta desc i n = n\<lparr>deltas := (deltas n)[i := setDescription desc (deltas n ! i)]\<rparr>"

definition getDelta :: "('e, 'k, 'r) AutomationTrackNode \<Rightarrow> int \<Rightarrow> fault + (Delta \<times> ('e, 'k, 'r) AutomationTrackNode)" where
  "getDelta n index =
     (if index < 0 \<or> int (length (deltas n)) \<le> index then Inl NullDelta
      else
        let i = nat index;
            n' =
              (if hasType (deltas n ! i) eventsAdded then
                 (let numEvents = int (length (sequenceEvents n)) in
                  if numEvents = 0
                  then describeDelta (DeltaDescription ''empty sequence'' None) i n
                  else describeDelta (DeltaDescription ''{x} events'' (Some numEvents)) i n)
               else if hasType (deltas n ! i) clipsAdded then
                 (let numClips = int (length (patternClips n)) in
                  if numClips = 0
                  then describeDelta (DeltaDescription ''empty pattern'' None) i n
                  else describeDelta (DeltaDescription ''{x} clips'' (Some numClips)) i n)
               else n)
        in Inr (deltas n' ! i, n'))"

subsection \<open>Serializing the deltas\<close>

definition serializePathDelta :: "('e, 'k, 'r) AutomationTrackNode \<Rightarrow> SerializedData" where
  "serializePathDelta n =
     setProperty delta (StringVar (getTrackName n)) (newSerializedData trackPath)"

definition serializeColourDelta :: "('e, 'k, 'r) externals \<Rightarrow> ('e, 'k, 'r) AutomationTrackNode \<Rightarrow> SerializedData" where
  "serializeColourDelta X n =
     setProperty delta (StringVar (colourToString X (getTrackColour n))) (newSerializedData trackColour)"

definition serializeInstrumentDelta :: "('e, 'k, 'r) AutomationTrackNode \<Rightarrow> SerializedData" where
  "serializeInstrumentDelta n =
     setProperty delta (StringVar (getTrackInstrumentId n)) (newSerializedData trackInstrument)"

definition serializeControllerDelta :: "('e, 'k, 'r) AutomationTrackNode \<Rightarrow> SerializedData" where
  "serializeControllerDelta n =
     setProperty delta (IntVar (getTrackControllerNumber n)) (newSerializedData trackController)"

definition serializeEventsDelta :: "('e, 'k, 'r) externals \<Rightarrow> ('e, 'k, 'r) AutomationTrackNode \<Rightarrow> SerializedData" where
  "serializeEventsDelta X n =
     foldl (\<lambda>tree event. appendChild (eventSerialize X event) tree)
           (newSerializedData eventsAdded) (sequenceEvents n)"

text \<open>
  Modelled from the spec: \<open>serializeClipsDelta\<close>, which \<open>getDeltaData\<close> calls and the
  source file does not define. The spec has a structural delta serialize by appending one child
  node per contained item, calling that item's own serialization.
\<close>

definition serializeClipsDelta :: "('e, 'k, 'r) externals \<Rightarrow> ('e, 'k, 'r) AutomationTrackNode \<Rightarrow> SerializedData" where
  "serializeClipsDelta X n =
     foldl (\<lambda>tree clip. appendChild (clipSerialize X clip) tree)
           (newSerializedData clipsAdded) (patternClips n)"

definition getDeltaData :: "('e, 'k, 'r) externals \<Rightarrow> ('e, 'k, 'r) AutomationTrackNode \<Rightarrow> int \<Rightarrow> fault + SerializedData" where
  "getDeltaData X n deltaIndex =
     (if deltaIndex < 0 \<or> int (length (deltas n)) \<le> deltaIndex then Inl NullDelta
      else
        let d = deltas n ! nat deltaIndex in
        if hasType d trackPath then Inr (serializePathDelta n)
        else if hasType d trackColour then Inr (serializeColourDelta X n)
        else if hasType d trackInstrument then Inr (serializeInstrumentDelta n)
        else if hasType d trackController then Inr (serializeControllerDelta n)
        else if hasType d eventsAdded then Inr (serializeEventsDelta X n)
        else if hasType d clipsAdded then Inr (serializeClipsDelta X n)
        else Inl AssertionFailure)"

subsection \<open>Resetting the deltas\<close>

definition resetPathDelta :: "('e, 'k, 'r) externals \<Rightarrow> SerializedData \<Rightarrow> ('e, 'k, 'r) AutomationTrackNode \<Rightarrow> fault + ('e, 'k, 'r) AutomationTrackNode" where
  "resetPathDelta X state n =
     (if \<not> hasTypeData state trackPath then Inl AssertionFailure
      else
        let path = varToString X (getProperty delta state)
        in Inr (setXPath path False n))"

definition resetColourDelta :: "('e, 'k, 'r) externals \<Rightarrow> SerializedData \<Rightarrow> ('e, 'k, 'r) AutomationTrackNode \<Rightarrow> fault + ('e, 'k, 'r) AutomationTrackNode" where
  "resetColourDelta X state n =
     (if \<not> hasTypeData state trackColour then Inl AssertionFailure
      else
        let colourString = varToString X (getProperty delta state);
            colour = colourFromString X colourString
        in if colour \<noteq> getTrackColour n then Inr (setTrackColour colour False n) else Inr n)"

definition resetInstrumentDelta :: "('e, 'k, 'r) externals \<Rightarrow> SerializedData \<Rightarrow> ('e, 'k, 'r) AutomationTrackNode \<Rightarrow> fault + ('e, 'k, 'r) AutomationTrackNode" where
  "resetInstrumentDelta X state n =
     (if \<not> hasTypeData state trackInstrument then Inl AssertionFailure
      else
        let instrumentId = varToString X (getProperty delta state)
        in Inr (setTrackInstrumentId instrumentId False n))"

definition resetControllerDelta :: "('e, 'k, 'r) externals \<Rightarrow> SerializedData \<Rightarrow> ('e, 'k, 'r) AutomationTrackNode \<Rightarrow> fault + ('e, 'k, 'r) AutomationTrackNode" where
  "resetControllerDelta X state n =
     (if \<not> hasTypeData state trackController then Inl AssertionFailure
      else
        let ccNumber = varToInt X (getProperty delta state)
        in Inr (setTrackControllerNumber ccNumber False n))"

definition resetEventsDelta :: "('e, 'k, 'r) externals \<Rightarrow> SerializedData \<Rightarrow> ('e, 'k, 'r) AutomationTrackNode \<Rightarrow> fault + ('e, 'k, 'r) AutomationTrackNode" where
  "resetEventsDelta X state n =
     (if \<not> hasTypeData state eventsAdded then Inl AssertionFailure
      else
        let n1 = sequenceReset n;
            n2 = foldl (\<lambda>m e. checkoutEvent X e m) n1 (childrenWithType state automationEvent)
        in Inr (updateBeatRange X False n2))"

text \<open>
  Modelled from the spec: \<open>resetClipsDelta\<close>, which \<open>resetStateTo\<close> calls and the source
  file does not define. The spec has a structural reset clear the local collection first and
  then iterate every child node of the payload in document order, deserializing each
  into a new item and inserting it.
\<close>

definition resetClipsDelta :: "('e, 'k, 'r) externals \<Rightarrow> SerializedData \<Rightarrow> ('e, 'k, 'r) AutomationTrackNode \<Rightarrow> fault + ('e, 'k, 'r) AutomationTrackNode" where
  "resetClipsDelta X state n =
     (if \<not> hasTypeData state clipsAdded then Inl AssertionFailure
      else
        let n1 = patternReset n
        in Inr (foldl (\<lambda>m e. importClip X e m) n1 (children state)))"

text \<open>
  The foreign item of \<open>resetStateTo\<close> is any \<open>VCS::TrackedItem\<close>. The loop reads, for each
  index below \<open>getNumDeltas()\<close>, the delta \<open>getDelta(i)\<close> and the payload
  \<open>getDeltaData(i)\<close>: the item is the list of these pairs, in index order.
\<close>

type_synonym TrackedItem = "(Delta \<times> SerializedData) list"

definition resetDelta :: "('e, 'k, 'r) externals \<Rightarrow> Delta \<Rightarrow> SerializedData \<Rightarrow> ('e, 'k, 'r) AutomationTrackNode \<Rightarrow> fault + ('e, 'k, 'r) AutomationTrackNode" where
  "resetDelta X newDelta newDeltaData n =
     (if hasType newDelta trackPath then resetPathDelta X newDeltaData n
      else if hasType newDelta trackColour then resetColourDelta X newDeltaData n
      else if hasType newDelta trackInstrument then resetInstrumentDelta X newDeltaData n
      else if hasType newDelta trackController then resetControllerDelta X newDeltaData n
      else if hasType newDelta eventsAdded then resetEventsDelta X newDeltaData n
      else if hasType newDelta clipsAdded then resetClipsDelta X newDeltaData n
      else Inr n)"

fun resetStateTo :: "('e, 'k, 'r) externals \<Rightarrow> TrackedItem \<Rightarrow> ('e, 'k, 'r) AutomationTrackNode \<Rightarrow> fault + ('e, 'k, 'r) AutomationTrackNode" where
  "resetStateTo X [] n = Inr n"
| "resetStateTo X ((newDelta, newDeltaData) # rest) n =
     (case resetDelta X newDelta newDeltaData n of
        Inl f \<Rightarrow> Inl f
      | Inr n' \<Rightarrow> resetStateTo X rest n')"

text \<open>
  A node read as a foreign item: the deltas and payloads that the loop of \<open>resetStateTo\<close>
  reads from it, \<open>getDelta(i)\<close> and then \<open>getDeltaData(i)\<close> for each index below
  \<open>getNumDeltas()\<close>, with the descriptions that \<open>getDelta\<close> writes on the way.
\<close>

fun readDeltas :: "('e, 'k, 'r) externals \<Rightarrow> ('e, 'k, 'r) AutomationTrackNode \<Rightarrow> nat list \<Rightarrow> fault + TrackedItem" where
  "readDeltas X F [] = Inr []"
| "readDeltas X F (i # is) =
     (case getDelta F (int i) of
        Inl f \<Rightarrow> Inl f
      | Inr (d, F') \<Rightarrow>
          (case getDeltaData X F' (int i) of
             Inl f \<Rightarrow> Inl f
           | Inr p \<Rightarrow>
               (case readDeltas X F' is of
                  Inl f \<Rightarrow> Inl f
                | Inr item \<Rightarrow> Inr ((d, p) # item))))"

definition asTrackedItem :: "('e, 'k, 'r) externals \<Rightarrow> ('e, 'k, 'r) AutomationTrackNode \<Rightarrow> fault + TrackedItem" where
  "asTrackedItem X F = readDeltas X F [0..<nat (getNumDeltas F)]"

subsection \<open>Notions used by the statements\<close>

text \<open>The kinds declared by the constructor, in declaration order.\<close>

definition declaredKinds :: "Identifier list" where
  "declaredKinds =
     [trackPath, trackColour, trackInstrument, trackController, eventsAdded, clipsAdded]"

text \<open>
  The observable state of the node: track path, colour, instrument id, controller
  number, event list and clip list.
\<close>

definition observableState :: "('e, 'k, 'r) AutomationTrackNode \<Rightarrow> string \<times> Colour \<times> string \<times> int \<times> 'e list \<times> 'k list" where
  "observableState n =
     (getTrackName n, getTrackColour n, getTrackInstrumentId n, getTrackControllerNumber n,
      sequenceEvents n, patternClips n)"

text \<open>The payload of the last delta of kind \<open>k\<close> that a tracked item declares, if any.\<close>

fun lastPayload :: "Identifier \<Rightarrow> TrackedItem \<Rightarrow> SerializedData option" where
  "lastPayload k [] = None"
| "lastPayload k ((d, p) # rest) =
     (case lastPayload k rest of
        Some q \<Rightarrow> Some q
      | None \<Rightarrow> if hasType d k then Some p else None)"

text \<open>
  The nodes that exist: a node is constructed, and then changed by \<open>getDelta\<close>, by
  \<open>resetStateTo\<close> and by the mutation interface of the track, the sequence and the
  pattern.
\<close>

inductive reachable :: "('e, 'k, 'r) externals \<Rightarrow> ('e, 'k, 'r) AutomationTrackNode \<Rightarrow> bool"
  for X :: "('e, 'k, 'r) externals" where
  constructed: "reachable X (newAutomationTrackNode name base)"
| afterGetDelta: "reachable X n \<Longrightarrow> getDelta n i = Inr (d, n') \<Longrightarrow> reachable X n'"
| afterResetStateTo: "reachable X n \<Longrightarrow> resetStateTo X F n = Inr n' \<Longrightarrow> reachable X n'"
| afterSetXPath: "reachable X n \<Longrightarrow> reachable X (setXPath path b n)"
| afterSetTrackColour: "reachable X n \<Longrightarrow> reachable X (setTrackColour c b n)"
| afterSetTrackInstrumentId: "reachable X n \<Longrightarrow> reachable X (setTrackInstrumentId s b n)"
| afterSetTrackControllerNumber: "reachable X n \<Longrightarrow> reachable X (setTrackControllerNumber cc b n)"
| afterSequenceReset: "reachable X n \<Longrightarrow> reachable X (sequenceReset n)"
| afterCheckoutEvent: "reachable X n \<Longrightarrow> reachable X (checkoutEvent X e n)"
| afterUpdateBeatRange: "reachable X n \<Longrightarrow> reachable X (updateBeatRange X b n)"
| afterPatternReset: "reachable X n \<Longrightarrow> reachable X (patternReset n)"
| afterImportClip: "reachable X n \<Longrightarrow> reachable X (importClip X e n)"

subsection \<open>A concrete instance\<close>

text \<open>
  An instance of the parameters on which the functions can be run: an event and a clip
  are kept as the tree they are read from, the beat range of a list of events is its
  length, a colour is written as that many characters.
\<close>

definition exampleExternals :: "(SerializedData, SerializedData, nat) externals" where
  "exampleExternals =
     \<lparr>varToString = (\<lambda>v. case v of StringVar s \<Rightarrow> s | _ \<Rightarrow> []),
      varToInt = (\<lambda>v. case v of IntVar i \<Rightarrow> i | _ \<Rightarrow> 0),
      colourToString = (\<lambda>c. replicate (unat c) (CHR ''f'')),
      colourFromString = (\<lambda>s. word_of_nat (length s)),
      eventSerialize = (\<lambda>e. e),
      eventDeserialize = (\<lambda>e. e),
      clipSerialize = (\<lambda>c. c),
      clipDeserialize = (\<lambda>c. c),
      beatRangeOf = length\<rparr>"

definition exampleBase :: "(SerializedData, SerializedData, nat) AutomationTrackNode" where
  "exampleBase =
     \<lparr>getTrackName = [], getTrackColour = 0, getTrackInstrumentId = [],
      getTrackControllerNumber = 0, sequenceEvents = [], sequenceBeatRange = 0,
      patternClips = [], deltas = [], calls = []\<rparr>"

definition exampleNode :: "(SerializedData, SerializedData, nat) AutomationTrackNode" where
  "exampleNode = newAutomationTrackNode ''Track A'' exampleBase"

text \<open>A payload for each kind, as a foreign item would serialize it.\<close>

definition pathPayload :: "string \<Rightarrow> SerializedData" where
  "pathPayload s = SerializedData trackPath [(delta, StringVar s)] []"

definition colourPayload :: "string \<Rightarrow> SerializedData" where
  "colourPayload s = SerializedData trackColour [(delta, StringVar s)] []"

definition instrumentPayload :: "string \<Rightarrow> SerializedData" where
  "instrumentPayload s = SerializedData trackInstrument [(delta, StringVar s)] []"

definition controllerPayload :: "int \<Rightarrow> SerializedData" where
  "controllerPayload cc = SerializedData trackController [(delta, IntVar cc)] []"

definition eventNode :: "int \<Rightarrow> SerializedData" where
  "eventNode b = SerializedData automationEvent [(''beat'', IntVar b)] []"

definition eventsPayload :: "SerializedData list \<Rightarrow> SerializedData" where
  "eventsPayload cs = SerializedData eventsAdded [] cs"

definition clipsPayload :: "SerializedData list \<Rightarrow> SerializedData" where
  "clipsPayload cs = SerializedData clipsAdded [] cs"

text \<open>A foreign item that declares a path and a colour, and one that declares an unknown kind.\<close>

definition exampleItem :: TrackedItem where
  "exampleItem =
     [(createDelta emptyDescription trackPath, pathPayload ''Track B''),
      (createDelta emptyDescription trackColour, colourPayload ''ff'')]"

definition exampleAfter :: "(SerializedData, SerializedData, nat) AutomationTrackNode" where
  "exampleAfter =
     exampleNode\<lparr>getTrackName := ''Track B'', getTrackColour := 2,
                 calls := [SetXPath ''Track B'' False, SetTrackColour 2 False]\<rparr>"

text \<open>A node that holds two events and one clip.\<close>

definition exampleFilled :: "(SerializedData, SerializedData, nat) AutomationTrackNode" where
  "exampleFilled =
     exampleNode\<lparr>sequenceEvents := [eventNode 1, eventNode 2], sequenceBeatRange := 2,
                 patternClips := [newSerializedData ''clip'']\<rparr>"

text \<open>An events payload in which a node that is not an event stands between two events.\<close>

definition mixedPayload :: SerializedData where
  "mixedPayload = eventsPayload [eventNode 1, newSerializedData ''note'', eventNode 2]"


text \<open>
  A foreign item that declares all six kinds, with values that all differ from those
  of \<open>exampleNode\<close>, and the node that \<open>exampleNode\<close> becomes when reset to it.
\<close>

definition exampleFullItem :: TrackedItem where
  "exampleFullItem =
     [(createDelta emptyDescription trackPath, pathPayload ''Track B''),
      (createDelta emptyDescription trackColour, colourPayload ''ff''),
      (createDelta emptyDescription trackInstrument, instrumentPayload ''piano''),
      (createDelta emptyDescription trackController, controllerPayload 7),
      (createDelta emptyDescription eventsAdded, mixedPayload),
      (createDelta emptyDescription clipsAdded, clipsPayload [newSerializedData ''clip''])]"

definition exampleFullAfter :: "(SerializedData, SerializedData, nat) AutomationTrackNode" where
  "exampleFullAfter =
     exampleNode\<lparr>getTrackName := ''Track B'', getTrackColour := 2,
                 getTrackInstrumentId := ''piano'', getTrackControllerNumber := 7,
                 sequenceEvents := [eventNode 1, eventNode 2], sequenceBeatRange := 2,
                 patternClips := [newSerializedData ''clip''],
                 calls := [SetXPath ''Track B'' False, SetTrackColour 2 False,
                           SetTrackInstrumentId ''piano'' False,
                           SetTrackControllerNumber 7 False,
                           SequenceReset, CheckoutEvent (eventNode 1),
                           CheckoutEvent (eventNode 2), UpdateBeatRange False,
                           PatternReset, ImportClip (newSerializedData ''clip'')]\<rparr>"

definition unknownDelta :: Delta where
  "unknownDelta = createDelta emptyDescription ''notesAdded''"

definition unknownItem :: TrackedItem where
  "unknownItem = [(unknownDelta, newSerializedData ''notesAdded'')]"

section \<open>Properties\<close>

subsection \<open>Auxiliary facts\<close>

lemmas kind_defs = trackPath_def trackColour_def trackInstrument_def trackController_def
  eventsAdded_def clipsAdded_def

lemma kinds_distinct [simp]:
  "trackPath \<noteq> trackColour" "trackPath \<noteq> trackInstrument" "trackPath \<noteq> trackController"
  "trackPath \<noteq> eventsAdded" "trackPath \<noteq> clipsAdded"
  "trackColour \<noteq> trackInstrument" "trackColour \<noteq> trackController"
  "trackColour \<noteq> eventsAdded" "trackColour \<noteq> clipsAdded"
  "trackInstrument \<noteq> trackController" "trackInstrument \<noteq> eventsAdded"
  "trackInstrument \<noteq> clipsAdded"
  "trackController \<noteq> eventsAdded" "trackController \<noteq> clipsAdded"
  "eventsAdded \<noteq> clipsAdded"
  by (simp_all add: kind_defs)

lemmas kinds_distinct_sym [simp] = kinds_distinct [symmetric]

lemma foldl_checkoutEvent:
  "foldl (\<lambda>m e. checkoutEvent X e m) n es =
     n\<lparr>sequenceEvents := sequenceEvents n @ map (eventDeserialize X) es,
       calls := calls n @ map CheckoutEvent es\<rparr>"
  by (induction es arbitrary: n) (simp_all add: checkoutEvent_def)

lemma foldl_importClip:
  "foldl (\<lambda>m e. importClip X e m) n es =
     n\<lparr>patternClips := patternClips n @ map (clipDeserialize X) es,
       calls := calls n @ map ImportClip es\<rparr>"
  by (induction es arbitrary: n) (simp_all add: importClip_def)

lemma resetEventsDelta_result:
  "resetEventsDelta X state n =
     (if hasTypeData state eventsAdded
      then Inr (n\<lparr>sequenceEvents := map (eventDeserialize X) (childrenWithType state automationEvent),
                  sequenceBeatRange :=
                    beatRangeOf X (map (eventDeserialize X) (childrenWithType state automationEvent)),
                  calls := calls n @ [SequenceReset]
                             @ map CheckoutEvent (childrenWithType state automationEvent)
                             @ [UpdateBeatRange False]\<rparr>)
      else Inl AssertionFailure)"
  by (simp add: resetEventsDelta_def foldl_checkoutEvent sequenceReset_def updateBeatRange_def)

lemma resetClipsDelta_result:
  "resetClipsDelta X state n =
     (if hasTypeData state clipsAdded
      then Inr (n\<lparr>patternClips := map (clipDeserialize X) (children state),
                  calls := calls n @ [PatternReset] @ map ImportClip (children state)\<rparr>)
      else Inl AssertionFailure)"
  by (simp add: resetClipsDelta_def foldl_importClip patternReset_def)

lemmas scalar_reset_defs =
  resetPathDelta_def resetColourDelta_def resetInstrumentDelta_def resetControllerDelta_def
  setXPath_def setTrackColour_def setTrackInstrumentId_def setTrackControllerNumber_def

text \<open>One dispatched reset: what it leaves in each field.\<close>

lemma resetDelta_fields:
  assumes "resetDelta X d p n = Inr n1"
  shows "getTrackName n1 =
           (if hasType d trackPath then varToString X (getProperty delta p) else getTrackName n)"
    and "getTrackColour n1 =
           (if hasType d trackColour then colourFromString X (varToString X (getProperty delta p))
            else getTrackColour n)"
    and "getTrackInstrumentId n1 =
           (if hasType d trackInstrument then varToString X (getProperty delta p)
            else getTrackInstrumentId n)"
    and "getTrackControllerNumber n1 =
           (if hasType d trackController then varToInt X (getProperty delta p)
            else getTrackControllerNumber n)"
    and "sequenceEvents n1 =
           (if hasType d eventsAdded then map (eventDeserialize X) (childrenWithType p automationEvent)
            else sequenceEvents n)"
    and "sequenceBeatRange n1 =
           (if hasType d eventsAdded
            then beatRangeOf X (map (eventDeserialize X) (childrenWithType p automationEvent))
            else sequenceBeatRange n)"
    and "patternClips n1 =
           (if hasType d clipsAdded then map (clipDeserialize X) (children p) else patternClips n)"
    and "deltas n1 = deltas n"
  using assms
  by (auto simp: resetDelta_def hasType_def scalar_reset_defs resetEventsDelta_result
      resetClipsDelta_result Let_def split: if_splits)

lemma resetDelta_succeeds_anywhere:
  "resetDelta X d p n = Inr n1 \<Longrightarrow> \<exists>m1. resetDelta X d p m = Inr m1"
  by (auto simp: resetDelta_def hasType_def scalar_reset_defs resetEventsDelta_result
      resetClipsDelta_result Let_def split: if_splits)

lemma resetStateTo_succeeds_anywhere:
  "resetStateTo X F n = Inr n1 \<Longrightarrow> \<exists>m1. resetStateTo X F m = Inr m1"
proof (induction F arbitrary: n m)
  case Nil
  then show ?case by simp
next
  case (Cons e F)
  obtain d p where e: "e = (d, p)" by (cases e)
  from Cons.prems e obtain n' where
    step: "resetDelta X d p n = Inr n'" and rest: "resetStateTo X F n' = Inr n1"
    by (auto split: sum.splits)
  from resetDelta_succeeds_anywhere [OF step] obtain m' where m': "resetDelta X d p m = Inr m'"
    by blast
  from Cons.IH [OF rest] obtain m1 where "resetStateTo X F m' = Inr m1" by blast
  with m' e show ?case by simp
qed

text \<open>The whole loop: each field holds what the last delta of its kind carried.\<close>

lemma resetStateTo_fields:
  "resetStateTo X F n = Inr n' \<Longrightarrow>
     getTrackName n' =
       (case lastPayload trackPath F of None \<Rightarrow> getTrackName n
        | Some p \<Rightarrow> varToString X (getProperty delta p)) \<and>
     getTrackColour n' =
       (case lastPayload trackColour F of None \<Rightarrow> getTrackColour n
        | Some p \<Rightarrow> colourFromString X (varToString X (getProperty delta p))) \<and>
     getTrackInstrumentId n' =
       (case lastPayload trackInstrument F of None \<Rightarrow> getTrackInstrumentId n
        | Some p \<Rightarrow> varToString X (getProperty delta p)) \<and>
     getTrackControllerNumber n' =
       (case lastPayload trackController F of None \<Rightarrow> getTrackControllerNumber n
        | Some p \<Rightarrow> varToInt X (getProperty delta p)) \<and>
     sequenceEvents n' =
       (case lastPayload eventsAdded F of None \<Rightarrow> sequenceEvents n
        | Some p \<Rightarrow> map (eventDeserialize X) (childrenWithType p automationEvent)) \<and>
     sequenceBeatRange n' =
       (case lastPayload eventsAdded F of None \<Rightarrow> sequenceBeatRange n
        | Some p \<Rightarrow> beatRangeOf X (map (eventDeserialize X) (childrenWithType p automationEvent))) \<and>
     patternClips n' =
       (case lastPayload clipsAdded F of None \<Rightarrow> patternClips n
        | Some p \<Rightarrow> map (clipDeserialize X) (children p)) \<and>
     deltas n' = deltas n"
proof (induction F arbitrary: n)
  case Nil
  then show ?case by simp
next
  case (Cons e F)
  obtain d p where e: "e = (d, p)" by (cases e)
  from Cons.prems e obtain n1 where
    step: "resetDelta X d p n = Inr n1" and rest: "resetStateTo X F n1 = Inr n'"
    by (auto split: sum.splits)
  from Cons.IH [OF rest] resetDelta_fields [OF step] show ?case
    by (simp add: e split: option.splits)
qed

lemma lastPayload_absent:
  "k \<notin> set (map (deltaType \<circ> fst) F) \<Longrightarrow> lastPayload k F = None"
  by (induction F) (auto simp: hasType_def)

lemma lastPayload_present:
  "distinct (map (deltaType \<circ> fst) F) \<Longrightarrow> (d, p) \<in> set F \<Longrightarrow> lastPayload (deltaType d) F = Some p"
proof (induction F)
  case Nil
  then show ?case by simp
next
  case (Cons e F)
  obtain d' p' where e: "e = (d', p')" by (cases e)
  show ?case
  proof (cases "(d, p) \<in> set F")
    case True
    with Cons show ?thesis by (simp add: e)
  next
    case False
    with Cons.prems e have eq: "d' = d" "p' = p" by auto
    from Cons.prems e eq have "deltaType d \<notin> set (map (deltaType \<circ> fst) F)" by simp
    then have "lastPayload (deltaType d) F = None" by (rule lastPayload_absent)
    then show ?thesis by (simp add: e eq hasType_def)
  qed
qed

lemma declaredKinds_unknown:
  "k \<notin> set declaredKinds \<longleftrightarrow>
     k \<noteq> trackPath \<and> k \<noteq> trackColour \<and> k \<noteq> trackInstrument \<and> k \<noteq> trackController \<and>
     k \<noteq> eventsAdded \<and> k \<noteq> clipsAdded"
  by (auto simp: declaredKinds_def)

lemma resetStateTo_append:
  "resetStateTo X (pre @ post) n =
     (case resetStateTo X pre n of Inl f \<Rightarrow> Inl f | Inr n' \<Rightarrow> resetStateTo X post n')"
  by (induction pre arbitrary: n) (auto split: sum.splits)

text \<open>
  \<open>resetStateTo\<close> returns whenever each payload of a declared kind carries the tag of
  that kind.
\<close>

lemma resetDelta_returns:
  assumes "deltaType d \<in> set declaredKinds \<longrightarrow> hasTypeData p (deltaType d)"
  shows "\<exists>n1. resetDelta X d p n = Inr n1"
proof -
  consider "deltaType d = trackPath" | "deltaType d = trackColour" | "deltaType d = trackInstrument"
    | "deltaType d = trackController" | "deltaType d = eventsAdded" | "deltaType d = clipsAdded"
    | "deltaType d \<notin> set declaredKinds"
    by (auto simp: declaredKinds_def)
  then show ?thesis
  proof cases
    case 1
    with assms show ?thesis
      by (simp add: resetDelta_def hasType_def declaredKinds_def resetPathDelta_def)
  next
    case 2
    with assms show ?thesis
      by (simp add: resetDelta_def hasType_def declaredKinds_def resetColourDelta_def Let_def)
  next
    case 3
    with assms show ?thesis
      by (simp add: resetDelta_def hasType_def declaredKinds_def resetInstrumentDelta_def)
  next
    case 4
    with assms show ?thesis
      by (simp add: resetDelta_def hasType_def declaredKinds_def resetControllerDelta_def)
  next
    case 5
    with assms show ?thesis
      by (simp add: resetDelta_def hasType_def declaredKinds_def resetEventsDelta_result)
  next
    case 6
    with assms show ?thesis
      by (simp add: resetDelta_def hasType_def declaredKinds_def resetClipsDelta_result)
  next
    case 7
    then show ?thesis
      by (simp add: resetDelta_def hasType_def declaredKinds_unknown)
  qed
qed

lemma resetStateTo_returns:
  assumes "\<forall>(d, p) \<in> set F. deltaType d \<in> set declaredKinds \<longrightarrow> hasTypeData p (deltaType d)"
  shows "\<exists>n'. resetStateTo X F n = Inr n'"
  using assms
proof (induction F arbitrary: n)
  case Nil
  then show ?case by simp
next
  case (Cons e F)
  obtain d p where e: "e = (d, p)" by (cases e)
  from Cons.prems e have "deltaType d \<in> set declaredKinds \<longrightarrow> hasTypeData p (deltaType d)"
    by simp
  from resetDelta_returns [OF this] obtain n1 where step: "resetDelta X d p n = Inr n1"
    by blast
  from Cons.prems have "\<forall>(d, p) \<in> set F. deltaType d \<in> set declaredKinds \<longrightarrow> hasTypeData p (deltaType d)"
    by simp
  from Cons.IH [OF this] obtain n' where "resetStateTo X F n1 = Inr n'" by blast
  with step e show ?case by simp
qed

lemma redescribe_kinds:
  "map deltaType (ds[i := setDescription desc (ds ! i)]) = map deltaType ds"
  by (induction ds arbitrary: i) (simp_all add: setDescription_def split: nat.split)

lemma describeDelta_kinds:
  "map deltaType (deltas (describeDelta desc i n)) = map deltaType (deltas n)"
  by (simp add: describeDelta_def redescribe_kinds)

lemma getDelta_kinds:
  "getDelta n i = Inr (d, n') \<Longrightarrow> map deltaType (deltas n') = map deltaType (deltas n)"
  by (auto simp: getDelta_def Let_def describeDelta_kinds split: if_splits)

lemma reachable_declared:
  "reachable X n \<Longrightarrow> map deltaType (deltas n) = declaredKinds"
proof (induction rule: reachable.induct)
  case (constructed name base)
  show ?case by (simp add: newAutomationTrackNode_def createDelta_def declaredKinds_def)
next
  case (afterGetDelta n i d n')
  then show ?case by (simp add: getDelta_kinds)
next
  case (afterResetStateTo n F n')
  then show ?case using resetStateTo_fields [of X F n n'] by simp
qed (simp_all add: scalar_reset_defs sequenceReset_def checkoutEvent_def updateBeatRange_def
      patternReset_def importClip_def)

lemma getDelta_in_range:
  assumes "0 \<le> i" and "i < getNumDeltas n"
  shows "\<exists>d n'. getDelta n i = Inr (d, n') \<and> deltaType d = deltaType (deltas n ! nat i)"
proof -
  from assms have range: "nat i < length (deltas n)" by (simp add: getNumDeltas_def)
  from assms range obtain d n' where ok: "getDelta n i = Inr (d, n')"
    by (auto simp: getDelta_def getNumDeltas_def Let_def)
  from getDelta_kinds [OF ok] have "map deltaType (deltas n') ! nat i = map deltaType (deltas n) ! nat i"
    by simp
  moreover from getDelta_kinds [OF ok] range have "nat i < length (deltas n')"
    by (metis length_map)
  moreover from ok assms have "d = deltas n' ! nat i"
    by (auto simp: getDelta_def getNumDeltas_def Let_def split: if_splits)
  ultimately show ?thesis using ok range by simp
qed

lemma foldl_appendChild:
  "foldl (\<lambda>tree x. appendChild (f x) tree) t xs =
     SerializedData (getType t) (properties t) (children t @ map f xs)"
  by (induction xs arbitrary: t) (simp_all add: appendChild_def)

lemma serializeEventsDelta_tree:
  "serializeEventsDelta X n = SerializedData eventsAdded [] (map (eventSerialize X) (sequenceEvents n))"
  by (simp add: serializeEventsDelta_def foldl_appendChild newSerializedData_def)

lemma serializeClipsDelta_tree:
  "serializeClipsDelta X n = SerializedData clipsAdded [] (map (clipSerialize X) (patternClips n))"
  by (simp add: serializeClipsDelta_def foldl_appendChild newSerializedData_def)

lemmas scalar_serialize_defs =
  serializePathDelta_def serializeColourDelta_def serializeInstrumentDelta_def
  serializeControllerDelta_def setProperty_def newSerializedData_def

text \<open>A node with the six declared deltas, read as a foreign item.\<close>

lemma six_deltas:
  assumes "map deltaType ds = declaredKinds"
  obtains d0 d1 d2 d3 d4 d5 where "ds = [d0, d1, d2, d3, d4, d5]"
    "deltaType d0 = trackPath" "deltaType d1 = trackColour" "deltaType d2 = trackInstrument"
    "deltaType d3 = trackController" "deltaType d4 = eventsAdded" "deltaType d5 = clipsAdded"
  using assms by (auto simp: declaredKinds_def map_eq_Cons_conv)

lemma upt_six: "[0..<6] = [0, 1, 2, 3, 4, Suc 4]"
  by (simp add: upt_rec)

lemma asTrackedItem_node:
  assumes "map deltaType (deltas F) = declaredKinds"
  shows "\<exists>d0 d1 d2 d3 d4 d5.
           asTrackedItem X F =
             Inr [(d0, serializePathDelta F), (d1, serializeColourDelta X F),
                  (d2, serializeInstrumentDelta F), (d3, serializeControllerDelta F),
                  (d4, serializeEventsDelta X F), (d5, serializeClipsDelta X F)] \<and>
           deltaType d0 = trackPath \<and> deltaType d1 = trackColour \<and>
           deltaType d2 = trackInstrument \<and> deltaType d3 = trackController \<and>
           deltaType d4 = eventsAdded \<and> deltaType d5 = clipsAdded"
proof -
  from assms obtain d0 d1 d2 d3 d4 d5 where ds: "deltas F = [d0, d1, d2, d3, d4, d5]" and
    k: "deltaType d0 = trackPath" "deltaType d1 = trackColour" "deltaType d2 = trackInstrument"
    "deltaType d3 = trackController" "deltaType d4 = eventsAdded" "deltaType d5 = clipsAdded"
    by (rule six_deltas)
  have num: "nat (getNumDeltas F) = 6" by (simp add: getNumDeltas_def ds)
  show ?thesis
    unfolding asTrackedItem_def num upt_six
    by (simp add: getDelta_def getDeltaData_def ds k hasType_def Let_def describeDelta_def
        setDescription_def serializeEventsDelta_def serializeClipsDelta_def
        scalar_serialize_defs)
qed


text \<open>
  Checkout from another node. When strings, integers, the colour, the events and the
  clips of a node \<open>F\<close> survive serialization, resetting any node to \<open>F\<close> read as a foreign
  item returns and leaves it with the observable state of \<open>F\<close>.
\<close>

lemma resetStateTo_from_node:
  assumes F: "reachable X F"
    and str: "\<And>s. varToString X (StringVar s) = s"
    and num: "\<And>i. varToInt X (IntVar i) = i"
    and col: "colourFromString X (colourToString X (getTrackColour F)) = getTrackColour F"
    and ev: "\<And>e. e \<in> set (sequenceEvents F) \<Longrightarrow>
               hasTypeData (eventSerialize X e) automationEvent \<and>
               eventDeserialize X (eventSerialize X e) = e"
    and cl: "\<And>c. c \<in> set (patternClips F) \<Longrightarrow> clipDeserialize X (clipSerialize X c) = c"
  shows "\<exists>item n'. asTrackedItem X F = Inr item \<and> resetStateTo X item n = Inr n' \<and>
           observableState n' = observableState F"
proof -
  from asTrackedItem_node [OF reachable_declared [OF F], of X]
  obtain d0 d1 d2 d3 d4 d5 where
    item: "asTrackedItem X F =
             Inr [(d0, serializePathDelta F), (d1, serializeColourDelta X F),
                  (d2, serializeInstrumentDelta F), (d3, serializeControllerDelta F),
                  (d4, serializeEventsDelta X F), (d5, serializeClipsDelta X F)]" and
    k: "deltaType d0 = trackPath" "deltaType d1 = trackColour" "deltaType d2 = trackInstrument"
    "deltaType d3 = trackController" "deltaType d4 = eventsAdded" "deltaType d5 = clipsAdded"
    by blast
  let ?item = "[(d0, serializePathDelta F), (d1, serializeColourDelta X F),
                  (d2, serializeInstrumentDelta F), (d3, serializeControllerDelta F),
                  (d4, serializeEventsDelta X F), (d5, serializeClipsDelta X F)]"
  have tags: "\<forall>(d, p) \<in> set ?item. deltaType d \<in> set declaredKinds \<longrightarrow> hasTypeData p (deltaType d)"
    by (simp add: k hasTypeData_def scalar_serialize_defs serializeEventsDelta_tree
        serializeClipsDelta_tree)
  from resetStateTo_returns [OF tags] obtain n' where run: "resetStateTo X ?item n = Inr n'"
    by blast
  have last: "lastPayload trackPath ?item = Some (serializePathDelta F)"
    "lastPayload trackColour ?item = Some (serializeColourDelta X F)"
    "lastPayload trackInstrument ?item = Some (serializeInstrumentDelta F)"
    "lastPayload trackController ?item = Some (serializeControllerDelta F)"
    "lastPayload eventsAdded ?item = Some (serializeEventsDelta X F)"
    "lastPayload clipsAdded ?item = Some (serializeClipsDelta X F)"
    by (simp_all add: hasType_def k)
  have events: "map (eventDeserialize X)
                  (childrenWithType (serializeEventsDelta X F) automationEvent) = sequenceEvents F"
  proof -
    have "filter (\<lambda>c. hasTypeData c automationEvent) (map (eventSerialize X) (sequenceEvents F))
            = map (eventSerialize X) (sequenceEvents F)"
      using ev by (simp add: filter_id_conv)
    then show ?thesis
      using ev by (simp add: childrenWithType_def serializeEventsDelta_tree map_idI)
  qed
  have clips: "map (clipDeserialize X) (children (serializeClipsDelta X F)) = patternClips F"
    using cl by (simp add: serializeClipsDelta_tree map_idI)
  have scalars: "getProperty delta (serializePathDelta F) = StringVar (getTrackName F)"
    "getProperty delta (serializeColourDelta X F) = StringVar (colourToString X (getTrackColour F))"
    "getProperty delta (serializeInstrumentDelta F) = StringVar (getTrackInstrumentId F)"
    "getProperty delta (serializeControllerDelta F) = IntVar (getTrackControllerNumber F)"
    by (simp_all add: getProperty_def scalar_serialize_defs)
  from resetStateTo_fields [OF run, unfolded last option.case]
  have obs: "observableState n' = observableState F"
    by (simp add: observableState_def scalars str num col events clips)
  show ?thesis
    by (intro exI conjI) (rule item, rule run, rule obs)
qed

text \<open>Two runs on the concrete instance.\<close>

lemma exampleItem_run:
  "resetStateTo exampleExternals exampleItem exampleNode = Inr exampleAfter"
  by (simp add: exampleItem_def exampleAfter_def exampleNode_def exampleBase_def
      exampleExternals_def newAutomationTrackNode_def createDelta_def resetDelta_def
      hasType_def scalar_reset_defs hasTypeData_def getProperty_def pathPayload_def
      colourPayload_def Let_def)


lemma exampleFilled_deltas:
  "deltas exampleFilled =
     [createDelta emptyDescription trackPath, createDelta emptyDescription trackColour,
      createDelta emptyDescription trackInstrument, createDelta emptyDescription trackController,
      createDelta emptyDescription eventsAdded, createDelta emptyDescription clipsAdded]"
  by (simp add: exampleFilled_def exampleNode_def newAutomationTrackNode_def)

subsection \<open>Checkout\<close>

text \<open>What a call of \<open>resetStateTo\<close> that returns has left in the node.\<close>

lemma returned_reset_fields:
  assumes "resetStateTo X F n = Inr n'"
    and "distinct (map (deltaType \<circ> fst) F)"
  shows "(\<forall>(d, p) \<in> set F.
            (hasType d trackPath \<longrightarrow> getTrackName n' = varToString X (getProperty delta p)) \<and>
            (hasType d trackColour \<longrightarrow>
               getTrackColour n' = colourFromString X (varToString X (getProperty delta p))) \<and>
            (hasType d trackInstrument \<longrightarrow>
               getTrackInstrumentId n' = varToString X (getProperty delta p)) \<and>
            (hasType d trackController \<longrightarrow>
               getTrackControllerNumber n' = varToInt X (getProperty delta p)) \<and>
            (hasType d eventsAdded \<longrightarrow>
               sequenceEvents n' = map (eventDeserialize X) (childrenWithType p automationEvent)) \<and>
            (hasType d clipsAdded \<longrightarrow>
               patternClips n' = map (clipDeserialize X) (children p))) \<and>
         (trackPath \<notin> set (map (deltaType \<circ> fst) F) \<longrightarrow> getTrackName n' = getTrackName n) \<and>
         (trackColour \<notin> set (map (deltaType \<circ> fst) F) \<longrightarrow> getTrackColour n' = getTrackColour n) \<and>
         (trackInstrument \<notin> set (map (deltaType \<circ> fst) F) \<longrightarrow>
            getTrackInstrumentId n' = getTrackInstrumentId n) \<and>
         (trackController \<notin> set (map (deltaType \<circ> fst) F) \<longrightarrow>
            getTrackControllerNumber n' = getTrackControllerNumber n) \<and>
         (eventsAdded \<notin> set (map (deltaType \<circ> fst) F) \<longrightarrow>
            sequenceEvents n' = sequenceEvents n \<and> sequenceBeatRange n' = sequenceBeatRange n) \<and>
         (clipsAdded \<notin> set (map (deltaType \<circ> fst) F) \<longrightarrow> patternClips n' = patternClips n)"
proof -
  note fields = resetStateTo_fields [OF assms(1)]
  have present: "\<forall>(d, p) \<in> set F.
            (hasType d trackPath \<longrightarrow> getTrackName n' = varToString X (getProperty delta p)) \<and>
            (hasType d trackColour \<longrightarrow>
               getTrackColour n' = colourFromString X (varToString X (getProperty delta p))) \<and>
            (hasType d trackInstrument \<longrightarrow>
               getTrackInstrumentId n' = varToString X (getProperty delta p)) \<and>
            (hasType d trackController \<longrightarrow>
               getTrackControllerNumber n' = varToInt X (getProperty delta p)) \<and>
            (hasType d eventsAdded \<longrightarrow>
               sequenceEvents n' = map (eventDeserialize X) (childrenWithType p automationEvent)) \<and>
            (hasType d clipsAdded \<longrightarrow>
               patternClips n' = map (clipDeserialize X) (children p))"
  proof (clarify, intro conjI impI)
    fix d p assume dp: "(d, p) \<in> set F"
    note last = lastPayload_present [OF assms(2) dp]
    { assume "hasType d trackPath"
      with last fields show "getTrackName n' = varToString X (getProperty delta p)"
        by (simp add: hasType_def) }
    { assume "hasType d trackColour"
      with last fields
      show "getTrackColour n' = colourFromString X (varToString X (getProperty delta p))"
        by (simp add: hasType_def) }
    { assume "hasType d trackInstrument"
      with last fields show "getTrackInstrumentId n' = varToString X (getProperty delta p)"
        by (simp add: hasType_def) }
    { assume "hasType d trackController"
      with last fields show "getTrackControllerNumber n' = varToInt X (getProperty delta p)"
        by (simp add: hasType_def) }
    { assume "hasType d eventsAdded"
      with last fields
      show "sequenceEvents n' = map (eventDeserialize X) (childrenWithType p automationEvent)"
        by (simp add: hasType_def) }
    { assume "hasType d clipsAdded"
      with last fields show "patternClips n' = map (clipDeserialize X) (children p)"
        by (simp add: hasType_def) }
  qed
  have absent:
    "trackPath \<notin> set (map (deltaType \<circ> fst) F) \<longrightarrow> getTrackName n' = getTrackName n"
    "trackColour \<notin> set (map (deltaType \<circ> fst) F) \<longrightarrow> getTrackColour n' = getTrackColour n"
    "trackInstrument \<notin> set (map (deltaType \<circ> fst) F) \<longrightarrow>
       getTrackInstrumentId n' = getTrackInstrumentId n"
    "trackController \<notin> set (map (deltaType \<circ> fst) F) \<longrightarrow>
       getTrackControllerNumber n' = getTrackControllerNumber n"
    "eventsAdded \<notin> set (map (deltaType \<circ> fst) F) \<longrightarrow>
       sequenceEvents n' = sequenceEvents n \<and> sequenceBeatRange n' = sequenceBeatRange n"
    "clipsAdded \<notin> set (map (deltaType \<circ> fst) F) \<longrightarrow> patternClips n' = patternClips n"
    using fields lastPayload_absent [of _ F] by simp_all
  from present absent show ?thesis by blast
qed

lemma exampleFullItem_run:
  "resetStateTo exampleExternals exampleFullItem exampleNode = Inr exampleFullAfter"
  by (simp add: exampleFullItem_def exampleFullAfter_def exampleNode_def exampleBase_def
      exampleExternals_def newAutomationTrackNode_def createDelta_def resetDelta_def
      hasType_def scalar_reset_defs resetEventsDelta_result resetClipsDelta_result
      hasTypeData_def childrenWithType_def getProperty_def pathPayload_def colourPayload_def
      instrumentPayload_def controllerPayload_def mixedPayload_def eventsPayload_def
      clipsPayload_def eventNode_def newSerializedData_def automationEvent_def Let_def)

text \<open>
  C1. A foreign tracked item \<open>F\<close> is given by its deltas and their payloads. Let \<open>F\<close>
  declare at most one delta per kind, and let each payload of one of the six kinds
  carry the tag of its kind. Then \<open>resetStateTo\<close> returns on \<open>F\<close>, from any node, and
  after it for every delta of \<open>F\<close> of one of the six kinds the local track path, colour,
  instrument id, controller number, event list or clip list is the one that the
  payload of \<open>F\<close> for that kind carries; for every one of the six kinds that \<open>F\<close> does
  not declare, the local state behind that kind is what it was before the call.
  When \<open>F\<close> is itself a node \<open>G\<close> of this class, read through \<open>getDelta\<close> and
  \<open>getDeltaData\<close>, and strings, integers, the colour, the events and the clips of \<open>G\<close>
  survive serialization, then \<open>resetStateTo\<close> returns and the local observable state
  is the observable state of \<open>G\<close>.
\<close>

theorem resetStateTo_checkout:
  "(distinct (map (deltaType \<circ> fst) F) \<and>
    (\<forall>(d, p) \<in> set F. deltaType d \<in> set declaredKinds \<longrightarrow> hasTypeData p (deltaType d)) \<longrightarrow>
      (\<exists>n'. resetStateTo X F n = Inr n' \<and>
          (\<forall>(d, p) \<in> set F.
             (hasType d trackPath \<longrightarrow> getTrackName n' = varToString X (getProperty delta p)) \<and>
             (hasType d trackColour \<longrightarrow>
                getTrackColour n' = colourFromString X (varToString X (getProperty delta p))) \<and>
             (hasType d trackInstrument \<longrightarrow>
                getTrackInstrumentId n' = varToString X (getProperty delta p)) \<and>
             (hasType d trackController \<longrightarrow>
                getTrackControllerNumber n' = varToInt X (getProperty delta p)) \<and>
             (hasType d eventsAdded \<longrightarrow>
                sequenceEvents n' = map (eventDeserialize X) (childrenWithType p automationEvent)) \<and>
             (hasType d clipsAdded \<longrightarrow>
                patternClips n' = map (clipDeserialize X) (children p))) \<and>
          (trackPath \<notin> set (map (deltaType \<circ> fst) F) \<longrightarrow> getTrackName n' = getTrackName n) \<and>
          (trackColour \<notin> set (map (deltaType \<circ> fst) F) \<longrightarrow> getTrackColour n' = getTrackColour n) \<and>
          (trackInstrument \<notin> set (map (deltaType \<circ> fst) F) \<longrightarrow>
             getTrackInstrumentId n' = getTrackInstrumentId n) \<and>
          (trackController \<notin> set (map (deltaType \<circ> fst) F) \<longrightarrow>
             getTrackControllerNumber n' = getTrackControllerNumber n) \<and>
          (eventsAdded \<notin> set (map (deltaType \<circ> fst) F) \<longrightarrow>
             sequenceEvents n' = sequenceEvents n \<and> sequenceBeatRange n' = sequenceBeatRange n) \<and>
          (clipsAdded \<notin> set (map (deltaType \<circ> fst) F) \<longrightarrow> patternClips n' = patternClips n))) \<and>
   (reachable X G \<and>
    (\<forall>s. varToString X (StringVar s) = s) \<and>
    (\<forall>i. varToInt X (IntVar i) = i) \<and>
    colourFromString X (colourToString X (getTrackColour G)) = getTrackColour G \<and>
    (\<forall>e \<in> set (sequenceEvents G).
       hasTypeData (eventSerialize X e) automationEvent \<and>
       eventDeserialize X (eventSerialize X e) = e) \<and>
    (\<forall>c \<in> set (patternClips G). clipDeserialize X (clipSerialize X c) = c) \<longrightarrow>
      (\<exists>item n'. asTrackedItem X G = Inr item \<and> resetStateTo X item n = Inr n' \<and>
          observableState n' = observableState G))"
  (is "(?generic \<longrightarrow> ?checkout) \<and> (?node \<longrightarrow> ?same)")
proof (intro conjI impI)
  assume ?generic
  then have dist: "distinct (map (deltaType \<circ> fst) F)"
    and tags: "\<forall>(d, p) \<in> set F. deltaType d \<in> set declaredKinds \<longrightarrow> hasTypeData p (deltaType d)"
    by (rule conjunct1, rule conjunct2)
  from resetStateTo_returns [OF tags] obtain n' where run: "resetStateTo X F n = Inr n'"
    by blast
  show ?checkout
    by (rule exI [of _ n']) (rule conjI [OF run returned_reset_fields [OF run dist]])
next
  assume node: ?node
  show ?same
  proof (rule resetStateTo_from_node)
    from node show "reachable X G" by (rule conjunct1)
    from node show "varToString X (StringVar s) = s" for s by blast
    from node show "varToInt X (IntVar i) = i" for i by blast
    from node show "colourFromString X (colourToString X (getTrackColour G)) = getTrackColour G"
      by blast
    from node show "hasTypeData (eventSerialize X e) automationEvent \<and>
        eventDeserialize X (eventSerialize X e) = e" if "e \<in> set (sequenceEvents G)" for e
      using that by blast
    from node show "clipDeserialize X (clipSerialize X c) = c" if "c \<in> set (patternClips G)" for c
      using that by blast
  qed
qed

theorem resetStateTo_checkout_witness:
  "distinct (map (deltaType \<circ> fst) exampleFullItem) \<and>
   list_all (\<lambda>(d, p). hasTypeData p (deltaType d)) exampleFullItem \<and>
   resetStateTo exampleExternals exampleFullItem exampleNode = Inr exampleFullAfter \<and>
   observableState exampleNode = (''Track A'', 0, [], 0, [], []) \<and>
   observableState exampleFullAfter =
     (''Track B'', 2, ''piano'', 7, [eventNode 1, eventNode 2], [newSerializedData ''clip'']) \<and>
   resetStateTo exampleExternals exampleItem exampleFullAfter
     = Inr (exampleFullAfter\<lparr>calls := calls exampleFullAfter
                                @ [SetXPath ''Track B'' False]\<rparr>) \<and>
   trackInstrument \<notin> set (map (deltaType \<circ> fst) exampleItem) \<and>
   trackController \<notin> set (map (deltaType \<circ> fst) exampleItem) \<and>
   eventsAdded \<notin> set (map (deltaType \<circ> fst) exampleItem) \<and>
   clipsAdded \<notin> set (map (deltaType \<circ> fst) exampleItem) \<and>
   reachable exampleExternals exampleFullAfter \<and>
   (\<exists>item n'. asTrackedItem exampleExternals exampleFullAfter = Inr item \<and>
       resetStateTo exampleExternals item exampleNode = Inr n' \<and>
       observableState n' = observableState exampleFullAfter)"
proof -
  have dist: "distinct (map (deltaType \<circ> fst) exampleFullItem)"
    by (simp add: exampleFullItem_def createDelta_def)
  have tags: "\<forall>(d, p) \<in> set exampleFullItem.
      deltaType d \<in> set declaredKinds \<longrightarrow> hasTypeData p (deltaType d)"
    by (simp add: exampleFullItem_def createDelta_def hasTypeData_def pathPayload_def
        colourPayload_def instrumentPayload_def controllerPayload_def mixedPayload_def
        eventsPayload_def clipsPayload_def)
  have before: "observableState exampleNode = (''Track A'', 0, [], 0, [], [])"
    by (simp add: observableState_def exampleNode_def exampleBase_def newAutomationTrackNode_def)
  have after: "observableState exampleFullAfter =
     (''Track B'', 2, ''piano'', 7, [eventNode 1, eventNode 2], [newSerializedData ''clip''])"
    by (simp add: observableState_def exampleFullAfter_def)
  have dist2: "distinct (map (deltaType \<circ> fst) exampleItem)"
    by (simp add: exampleItem_def createDelta_def)
  have tags2: "\<forall>(d, p) \<in> set exampleItem.
      deltaType d \<in> set declaredKinds \<longrightarrow> hasTypeData p (deltaType d)"
    by (simp add: exampleItem_def createDelta_def hasTypeData_def pathPayload_def
        colourPayload_def)
  have absent: "trackInstrument \<notin> set (map (deltaType \<circ> fst) exampleItem)"
    "trackController \<notin> set (map (deltaType \<circ> fst) exampleItem)"
    "eventsAdded \<notin> set (map (deltaType \<circ> fst) exampleItem)"
    "clipsAdded \<notin> set (map (deltaType \<circ> fst) exampleItem)"
    by (simp_all add: exampleItem_def createDelta_def)
  have partial: "resetStateTo exampleExternals exampleItem exampleFullAfter
     = Inr (exampleFullAfter\<lparr>calls := calls exampleFullAfter
                                @ [SetXPath ''Track B'' False]\<rparr>)"
    by (simp add: exampleItem_def exampleFullAfter_def exampleExternals_def createDelta_def
        resetDelta_def hasType_def scalar_reset_defs hasTypeData_def getProperty_def
        pathPayload_def colourPayload_def Let_def)
  have "reachable exampleExternals exampleNode"
    unfolding exampleNode_def by (rule reachable.constructed)
  then have reach: "reachable exampleExternals exampleFullAfter"
    using exampleFullItem_run by (rule reachable.afterResetStateTo)
  have codec: "\<forall>s. varToString exampleExternals (StringVar s) = s"
    "\<forall>i. varToInt exampleExternals (IntVar i) = i"
    "colourFromString exampleExternals
       (colourToString exampleExternals (getTrackColour exampleFullAfter))
     = getTrackColour exampleFullAfter"
    "\<forall>e \<in> set (sequenceEvents exampleFullAfter).
       hasTypeData (eventSerialize exampleExternals e) automationEvent \<and>
       eventDeserialize exampleExternals (eventSerialize exampleExternals e) = e"
    "\<forall>c \<in> set (patternClips exampleFullAfter).
       clipDeserialize exampleExternals (clipSerialize exampleExternals c) = c"
    by (simp_all add: exampleExternals_def exampleFullAfter_def hasTypeData_def eventNode_def)
  note full = resetStateTo_checkout
    [of exampleFullItem exampleExternals exampleNode, THEN conjunct1, THEN mp, OF conjI [OF dist tags]]
  note part = resetStateTo_checkout
    [of exampleItem exampleExternals exampleFullAfter, THEN conjunct1, THEN mp, OF conjI [OF dist2 tags2]]
  note same = resetStateTo_checkout
    [of _ exampleExternals exampleNode exampleFullAfter, THEN conjunct2, THEN mp]
  from codec reach have node: "\<exists>item n'. asTrackedItem exampleExternals exampleFullAfter = Inr item \<and>
       resetStateTo exampleExternals item exampleNode = Inr n' \<and>
       observableState n' = observableState exampleFullAfter"
    by (intro same conjI)
  have tagged: "list_all (\<lambda>(d, p). hasTypeData p (deltaType d)) exampleFullItem"
    by (simp add: exampleFullItem_def createDelta_def hasTypeData_def pathPayload_def
        colourPayload_def instrumentPayload_def controllerPayload_def mixedPayload_def
        eventsPayload_def clipsPayload_def)
  from full part dist tagged exampleFullItem_run before after partial absent reach node
  show ?thesis by blast
qed

subsection \<open>Idempotence\<close>

text \<open>
  C3. If \<open>resetStateTo\<close> returns on a foreign item \<open>F\<close>, then calling it again with the
  same \<open>F\<close> (the same deltas and payloads) returns as well, and the observable state
  after the second call is the observable state after the first; the cached beat range
  and the declared deltas are the same too.
\<close>

theorem resetStateTo_idempotent:
  assumes "resetStateTo X F n = Inr n1"
  shows "\<exists>n2. resetStateTo X F n1 = Inr n2 \<and> observableState n2 = observableState n1 \<and>
           sequenceBeatRange n2 = sequenceBeatRange n1 \<and> deltas n2 = deltas n1"
proof -
  from resetStateTo_succeeds_anywhere [OF assms] obtain n2 where
    again: "resetStateTo X F n1 = Inr n2" by blast
  note first = resetStateTo_fields [OF assms]
  note second = resetStateTo_fields [OF again]
  have "observableState n2 = observableState n1"
    unfolding observableState_def
    using first second by (simp split: option.splits)
  moreover have "sequenceBeatRange n2 = sequenceBeatRange n1"
    using first second by (simp split: option.splits)
  moreover have "deltas n2 = deltas n1"
    using second by simp
  ultimately show ?thesis using again by blast
qed

theorem resetStateTo_idempotent_witness:
  "resetStateTo exampleExternals exampleItem exampleNode = Inr exampleAfter \<and>
   (\<exists>n2. resetStateTo exampleExternals exampleItem exampleAfter = Inr n2 \<and>
         observableState n2 = observableState exampleAfter \<and>
         sequenceBeatRange n2 = sequenceBeatRange exampleAfter \<and>
         deltas n2 = deltas exampleAfter)"
  using resetStateTo_idempotent [OF exampleItem_run] exampleItem_run by simp

subsection \<open>Unknown kinds\<close>

text \<open>
  A delta whose kind is none of the six declared kinds, on the two dispatch chains: the
  chain of \<open>getDeltaData\<close> ends in the assertion, the chain of \<open>resetStateTo\<close> has no
  arm and no final branch for it, so the loop passes over the delta.
\<close>

lemma getDeltaData_unknown_kind:
  assumes "0 \<le> i" and "i < getNumDeltas n"
    and "deltaType (deltas n ! nat i) \<notin> set declaredKinds"
  shows "getDeltaData X n i = Inl AssertionFailure"
  using assms
  by (simp add: getDeltaData_def getNumDeltas_def hasType_def declaredKinds_unknown)

lemma resetDelta_unknown_kind:
  assumes "deltaType d \<notin> set declaredKinds"
  shows "resetDelta X d p n = Inr n"
  using assms by (simp add: resetDelta_def hasType_def declaredKinds_unknown)

lemma resetStateTo_unknown_kind:
  assumes "deltaType d \<notin> set declaredKinds"
  shows "resetStateTo X (pre @ (d, p) # post) n = resetStateTo X (pre @ post) n"
  by (simp add: resetStateTo_append resetDelta_unknown_kind [OF assms] split: sum.splits)

text \<open>
  C2. The claim asks that a delta of a kind that is none of the six raise the
  assertion fault when \<open>resetStateTo\<close> meets it, as it does in \<open>getDeltaData\<close>. The
  code does not: on a foreign item that declares one delta of kind \<open>notesAdded\<close>,
  \<open>resetStateTo\<close> returns without a fault and leaves the node as it was; with that
  delta put in front of a path and a colour delta it returns the node it returns
  on the path and the colour delta alone.
\<close>

theorem resetStateTo_unknown_kind_silent:
  "deltaType unknownDelta \<notin> set declaredKinds \<and>
   resetStateTo exampleExternals unknownItem exampleNode = Inr exampleNode \<and>
   resetStateTo exampleExternals (unknownItem @ exampleItem) exampleNode = Inr exampleAfter"
proof -
  have unknown: "deltaType unknownDelta \<notin> set declaredKinds"
    by (simp add: unknownDelta_def createDelta_def declaredKinds_def kind_defs)
  have skip: "resetDelta exampleExternals unknownDelta p n = Inr n" for p n
    using unknown by (rule resetDelta_unknown_kind)
  have alone: "resetStateTo exampleExternals unknownItem exampleNode = Inr exampleNode"
    by (simp add: unknownItem_def skip)
  have "resetStateTo exampleExternals (unknownItem @ exampleItem) exampleNode
          = resetStateTo exampleExternals exampleItem exampleNode"
    by (simp add: unknownItem_def skip)
  with unknown alone exampleItem_run show ?thesis by simp
qed

subsection \<open>Scalar reset routines\<close>

text \<open>
  C4. Each scalar reset routine, given a payload that carries the tag of its kind,
  returns, having decoded the property \<open>delta\<close> of the payload and applied it through its
  setter. The path, instrument-id and controller routines invoke their setter exactly
  once with the decoded value, whatever the value stored before, hence also when the
  two are equal. The colour routine invokes its setter, once, only when the decoded
  colour differs from the current one, and otherwise returns the node as it is, with
  no call made.
\<close>

theorem scalar_reset_setters:
  "(hasTypeData pathState trackPath \<longrightarrow>
      resetPathDelta X pathState n =
        Inr (n\<lparr>getTrackName := varToString X (getProperty delta pathState),
               calls := calls n @ [SetXPath (varToString X (getProperty delta pathState)) False]\<rparr>)) \<and>
   (hasTypeData instrumentState trackInstrument \<longrightarrow>
      resetInstrumentDelta X instrumentState n =
        Inr (n\<lparr>getTrackInstrumentId := varToString X (getProperty delta instrumentState),
               calls := calls n @
                 [SetTrackInstrumentId (varToString X (getProperty delta instrumentState)) False]\<rparr>)) \<and>
   (hasTypeData controllerState trackController \<longrightarrow>
      resetControllerDelta X controllerState n =
        Inr (n\<lparr>getTrackControllerNumber := varToInt X (getProperty delta controllerState),
               calls := calls n @
                 [SetTrackControllerNumber (varToInt X (getProperty delta controllerState)) False]\<rparr>)) \<and>
   (hasTypeData colourState trackColour \<longrightarrow>
      resetColourDelta X colourState n =
        Inr (if colourFromString X (varToString X (getProperty delta colourState)) \<noteq> getTrackColour n
             then n\<lparr>getTrackColour := colourFromString X (varToString X (getProperty delta colourState)),
                    calls := calls n @
                      [SetTrackColour (colourFromString X (varToString X (getProperty delta colourState)))
                         False]\<rparr>
             else n))"
proof (intro conjI impI)
  assume "hasTypeData pathState trackPath"
  then show "resetPathDelta X pathState n =
        Inr (n\<lparr>getTrackName := varToString X (getProperty delta pathState),
               calls := calls n @ [SetXPath (varToString X (getProperty delta pathState)) False]\<rparr>)"
    by (simp add: resetPathDelta_def setXPath_def Let_def)
next
  assume "hasTypeData instrumentState trackInstrument"
  then show "resetInstrumentDelta X instrumentState n =
        Inr (n\<lparr>getTrackInstrumentId := varToString X (getProperty delta instrumentState),
               calls := calls n @
                 [SetTrackInstrumentId (varToString X (getProperty delta instrumentState)) False]\<rparr>)"
    by (simp add: resetInstrumentDelta_def setTrackInstrumentId_def Let_def)
next
  assume "hasTypeData controllerState trackController"
  then show "resetControllerDelta X controllerState n =
        Inr (n\<lparr>getTrackControllerNumber := varToInt X (getProperty delta controllerState),
               calls := calls n @
                 [SetTrackControllerNumber (varToInt X (getProperty delta controllerState)) False]\<rparr>)"
    by (simp add: resetControllerDelta_def setTrackControllerNumber_def Let_def)
next
  assume "hasTypeData colourState trackColour"
  then show "resetColourDelta X colourState n =
        Inr (if colourFromString X (varToString X (getProperty delta colourState)) \<noteq> getTrackColour n
             then n\<lparr>getTrackColour := colourFromString X (varToString X (getProperty delta colourState)),
                    calls := calls n @
                      [SetTrackColour (colourFromString X (varToString X (getProperty delta colourState)))
                         False]\<rparr>
             else n)"
    by (simp add: resetColourDelta_def setTrackColour_def Let_def)
qed

theorem scalar_reset_setters_witness:
  "hasTypeData (pathPayload ''Track A'') trackPath \<and>
   hasTypeData (instrumentPayload []) trackInstrument \<and>
   hasTypeData (controllerPayload 0) trackController \<and>
   hasTypeData (colourPayload ''ff'') trackColour \<and>
   hasTypeData (colourPayload []) trackColour \<and>
   getTrackName exampleNode = ''Track A'' \<and>
   getTrackInstrumentId exampleNode = [] \<and>
   getTrackControllerNumber exampleNode = 0 \<and>
   getTrackColour exampleNode = 0 \<and>
   calls exampleNode = [] \<and>
   resetPathDelta exampleExternals (pathPayload ''Track A'') exampleNode
     = Inr (exampleNode\<lparr>calls := [SetXPath ''Track A'' False]\<rparr>) \<and>
   resetInstrumentDelta exampleExternals (instrumentPayload []) exampleNode
     = Inr (exampleNode\<lparr>calls := [SetTrackInstrumentId [] False]\<rparr>) \<and>
   resetControllerDelta exampleExternals (controllerPayload 0) exampleNode
     = Inr (exampleNode\<lparr>calls := [SetTrackControllerNumber 0 False]\<rparr>) \<and>
   resetColourDelta exampleExternals (colourPayload ''ff'') exampleNode
     = Inr (exampleNode\<lparr>getTrackColour := 2, calls := [SetTrackColour 2 False]\<rparr>) \<and>
   resetColourDelta exampleExternals (colourPayload []) exampleNode = Inr exampleNode"
proof -
  have tags: "hasTypeData (pathPayload ''Track A'') trackPath"
    "hasTypeData (instrumentPayload []) trackInstrument"
    "hasTypeData (controllerPayload 0) trackController"
    "hasTypeData (colourPayload ''ff'') trackColour"
    "hasTypeData (colourPayload []) trackColour"
    by (simp_all add: hasTypeData_def pathPayload_def instrumentPayload_def
        controllerPayload_def colourPayload_def)
  have now: "getTrackName exampleNode = ''Track A''" "getTrackInstrumentId exampleNode = []"
    "getTrackControllerNumber exampleNode = 0" "getTrackColour exampleNode = 0"
    "calls exampleNode = []"
    by (simp_all add: exampleNode_def exampleBase_def newAutomationTrackNode_def)
  have decoded:
    "varToString exampleExternals (getProperty delta (pathPayload ''Track A'')) = ''Track A''"
    "varToString exampleExternals (getProperty delta (instrumentPayload [])) = []"
    "varToInt exampleExternals (getProperty delta (controllerPayload 0)) = 0"
    "colourFromString exampleExternals
       (varToString exampleExternals (getProperty delta (colourPayload ''ff''))) = 2"
    "colourFromString exampleExternals
       (varToString exampleExternals (getProperty delta (colourPayload []))) = 0"
    by (simp_all add: exampleExternals_def getProperty_def pathPayload_def
        instrumentPayload_def controllerPayload_def colourPayload_def)
  have same: "exampleNode\<lparr>getTrackName := ''Track A'', calls := cs\<rparr> = exampleNode\<lparr>calls := cs\<rparr>"
    "exampleNode\<lparr>getTrackInstrumentId := [], calls := cs\<rparr> = exampleNode\<lparr>calls := cs\<rparr>"
    "exampleNode\<lparr>getTrackControllerNumber := 0, calls := cs\<rparr> = exampleNode\<lparr>calls := cs\<rparr>"
    for cs
    by (simp_all add: exampleNode_def exampleBase_def newAutomationTrackNode_def)
  note setter = scalar_reset_setters
    [of "pathPayload ''Track A''" exampleExternals exampleNode "instrumentPayload []"
        "controllerPayload 0" "colourPayload ''ff''"]
  note skip = scalar_reset_setters
    [of "pathPayload ''Track A''" exampleExternals exampleNode "instrumentPayload []"
        "controllerPayload 0" "colourPayload []", THEN conjunct2, THEN conjunct2, THEN conjunct2]
  from setter skip tags now decoded same show ?thesis by simp
qed

subsection \<open>Structural reset of the events\<close>






subsection \<open>The declared deltas\<close>

text \<open>
  C6. For every node, that is, every state reached from the constructor by \<open>getDelta\<close>,
  \<open>resetStateTo\<close> and the mutation interface, \<open>getNumDeltas\<close> returns 6 and \<open>getDelta\<close>
  at each index from 0 to 5 returns a delta whose kind is, in this order, \<open>trackPath\<close>,
  \<open>trackColour\<close>, \<open>trackInstrument\<close>, \<open>trackController\<close>, \<open>eventsAdded\<close>, \<open>clipsAdded\<close>; the
  node left by the call is a node again, with the same count.
\<close>

theorem declared_deltas_fixed:
  assumes "reachable X n"
  shows "getNumDeltas n = 6 \<and>
         (\<forall>i. 0 \<le> i \<and> i < 6 \<longrightarrow>
            (\<exists>d n'. getDelta n i = Inr (d, n') \<and> deltaType d = declaredKinds ! nat i \<and>
                    reachable X n' \<and> getNumDeltas n' = 6))"
proof -
  from reachable_declared [OF assms] have kinds: "map deltaType (deltas n) = declaredKinds" .
  then have "length (deltas n) = length declaredKinds" by (metis length_map)
  then have num: "getNumDeltas n = 6" by (simp add: getNumDeltas_def declaredKinds_def)
  have "\<exists>d n'. getDelta n i = Inr (d, n') \<and> deltaType d = declaredKinds ! nat i \<and>
                    reachable X n' \<and> getNumDeltas n' = 6" if i: "0 \<le> i \<and> i < 6" for i
  proof -
    from i num getDelta_in_range [of i n] obtain d n' where
      ok: "getDelta n i = Inr (d, n')" and k: "deltaType d = deltaType (deltas n ! nat i)"
      by auto
    from i num have "nat i < length (deltas n)" by (auto simp: getNumDeltas_def)
    then have "deltaType (deltas n ! nat i) = map deltaType (deltas n) ! nat i" by simp
    with k kinds have kind: "deltaType d = declaredKinds ! nat i" by simp
    from assms ok have r: "reachable X n'" by (rule reachable.afterGetDelta)
    from reachable_declared [OF r] have "length (deltas n') = length declaredKinds"
      by (metis length_map)
    then have "getNumDeltas n' = 6" by (simp add: getNumDeltas_def declaredKinds_def)
    with ok kind r show ?thesis by blast
  qed
  with num show ?thesis by blast
qed

theorem declared_deltas_fixed_witness:
  "reachable exampleExternals exampleAfter \<and> getNumDeltas exampleAfter = 6 \<and>
   (0::int) \<le> 4 \<and> (4::int) < 6 \<and>
   (\<exists>d n'. getDelta exampleAfter 4 = Inr (d, n') \<and> deltaType d = eventsAdded \<and>
           reachable exampleExternals n' \<and> getNumDeltas n' = 6)"
proof -
  have "reachable exampleExternals exampleNode"
    unfolding exampleNode_def by (rule reachable.constructed)
  then have r: "reachable exampleExternals exampleAfter"
    using exampleItem_run by (rule reachable.afterResetStateTo)
  have "declaredKinds ! nat 4 = eventsAdded"
    by (simp add: declaredKinds_def)
  with declared_deltas_fixed [OF r, THEN conjunct2, rule_format, of 4]
    declared_deltas_fixed [OF r, THEN conjunct1] r
  show ?thesis by simp
qed

subsection \<open>Serializing by kind\<close>

text \<open>
  C7. \<open>getDeltaData\<close> dispatches on the kind of the delta at the index. For each of the
  four scalar kinds the tree it returns carries the tag of the kind, the single property
  \<open>delta\<close> holding the scalar (path, colour as a string, instrument id, controller
  number) and no child. For each structural kind the tree carries the tag of the kind,
  no property, and exactly one child per contained event or clip, in order, each child
  being that item's own serialization.
\<close>

theorem getDeltaData_dispatch:
  assumes "0 \<le> i" and "i < getNumDeltas n"
  shows "(hasType (deltas n ! nat i) trackPath \<longrightarrow>
            getDeltaData X n i = Inr (SerializedData trackPath [(delta, StringVar (getTrackName n))] [])) \<and>
         (hasType (deltas n ! nat i) trackColour \<longrightarrow>
            getDeltaData X n i =
              Inr (SerializedData trackColour
                     [(delta, StringVar (colourToString X (getTrackColour n)))] [])) \<and>
         (hasType (deltas n ! nat i) trackInstrument \<longrightarrow>
            getDeltaData X n i =
              Inr (SerializedData trackInstrument [(delta, StringVar (getTrackInstrumentId n))] [])) \<and>
         (hasType (deltas n ! nat i) trackController \<longrightarrow>
            getDeltaData X n i =
              Inr (SerializedData trackController [(delta, IntVar (getTrackControllerNumber n))] [])) \<and>
         (hasType (deltas n ! nat i) eventsAdded \<longrightarrow>
            getDeltaData X n i =
              Inr (SerializedData eventsAdded [] (map (eventSerialize X) (sequenceEvents n)))) \<and>
         (hasType (deltas n ! nat i) clipsAdded \<longrightarrow>
            getDeltaData X n i =
              Inr (SerializedData clipsAdded [] (map (clipSerialize X) (patternClips n))))"
  using assms
  by (simp add: getDeltaData_def getNumDeltas_def hasType_def Let_def scalar_serialize_defs
      serializeEventsDelta_tree serializeClipsDelta_tree)

theorem getDeltaData_dispatch_witness:
  "getNumDeltas exampleFilled = 6 \<and>
   getDeltaData exampleExternals exampleFilled 0
     = Inr (SerializedData trackPath [(delta, StringVar ''Track A'')] []) \<and>
   getDeltaData exampleExternals exampleFilled 1
     = Inr (SerializedData trackColour [(delta, StringVar [])] []) \<and>
   getDeltaData exampleExternals exampleFilled 2
     = Inr (SerializedData trackInstrument [(delta, StringVar [])] []) \<and>
   getDeltaData exampleExternals exampleFilled 3
     = Inr (SerializedData trackController [(delta, IntVar 0)] []) \<and>
   getDeltaData exampleExternals exampleFilled 4
     = Inr (SerializedData eventsAdded [] [eventNode 1, eventNode 2]) \<and>
   getDeltaData exampleExternals exampleFilled 5
     = Inr (SerializedData clipsAdded [] [newSerializedData ''clip''])"
proof -
  have num: "getNumDeltas exampleFilled = 6"
    by (simp add: getNumDeltas_def exampleFilled_deltas)
  have fields: "getTrackName exampleFilled = ''Track A''" "getTrackColour exampleFilled = 0"
    "getTrackInstrumentId exampleFilled = []" "getTrackControllerNumber exampleFilled = 0"
    "sequenceEvents exampleFilled = [eventNode 1, eventNode 2]"
    "patternClips exampleFilled = [newSerializedData ''clip'']"
    by (simp_all add: exampleFilled_def exampleNode_def exampleBase_def newAutomationTrackNode_def)
  have ext: "colourToString exampleExternals 0 = []" "eventSerialize exampleExternals = (\<lambda>e. e)"
    "clipSerialize exampleExternals = (\<lambda>c. c)"
    by (simp_all add: exampleExternals_def)
  have kinds: "hasType (deltas exampleFilled ! nat 0) trackPath"
    "hasType (deltas exampleFilled ! nat 1) trackColour"
    "hasType (deltas exampleFilled ! nat 2) trackInstrument"
    "hasType (deltas exampleFilled ! nat 3) trackController"
    "hasType (deltas exampleFilled ! nat 4) eventsAdded"
    "hasType (deltas exampleFilled ! nat 5) clipsAdded"
    by (simp_all add: exampleFilled_deltas hasType_def createDelta_def)
  from getDeltaData_dispatch [of 0 exampleFilled exampleExternals]
    getDeltaData_dispatch [of 1 exampleFilled exampleExternals]
    getDeltaData_dispatch [of 2 exampleFilled exampleExternals]
    getDeltaData_dispatch [of 3 exampleFilled exampleExternals]
    getDeltaData_dispatch [of 4 exampleFilled exampleExternals]
    getDeltaData_dispatch [of 5 exampleFilled exampleExternals]
    num kinds fields ext
  show ?thesis by simp
qed

subsection \<open>Descriptions\<close>

text \<open>
  C8. At an index whose delta has kind \<open>eventsAdded\<close>, \<open>getDelta\<close> returns the delta
  stored there with its description set to the text \<open>empty sequence\<close> when the sequence
  holds no event, and to the text \<open>{x} events\<close> with the number of events as its
  parameter when it holds some. At an index whose delta has kind \<open>clipsAdded\<close> it does
  the same over the clips of the pattern, with \<open>empty pattern\<close> and \<open>{x} clips\<close>.
\<close>

theorem getDelta_description:
  assumes "0 \<le> i" and "i < getNumDeltas n"
  shows "(hasType (deltas n ! nat i) eventsAdded \<longrightarrow>
            (\<exists>d n'. getDelta n i = Inr (d, n') \<and> deltas n' ! nat i = d \<and>
               description d =
                 (if sequenceEvents n = [] then DeltaDescription ''empty sequence'' None
                  else DeltaDescription ''{x} events'' (Some (int (length (sequenceEvents n))))))) \<and>
         (hasType (deltas n ! nat i) clipsAdded \<longrightarrow>
            (\<exists>d n'. getDelta n i = Inr (d, n') \<and> deltas n' ! nat i = d \<and>
               description d =
                 (if patternClips n = [] then DeltaDescription ''empty pattern'' None
                  else DeltaDescription ''{x} clips'' (Some (int (length (patternClips n)))))))"
  using assms
  by (auto simp: getDelta_def getNumDeltas_def hasType_def Let_def describeDelta_def
      setDescription_def)

theorem getDelta_description_witness:
  "(\<exists>d n'. getDelta exampleNode 4 = Inr (d, n') \<and>
       description d = DeltaDescription ''empty sequence'' None) \<and>
   (\<exists>d n'. getDelta exampleFilled 4 = Inr (d, n') \<and>
       description d = DeltaDescription ''{x} events'' (Some 2)) \<and>
   (\<exists>d n'. getDelta exampleFilled 5 = Inr (d, n') \<and>
       description d = DeltaDescription ''{x} clips'' (Some 1))"
proof -
  have deltas0: "deltas exampleNode = deltas exampleFilled"
    by (simp add: exampleFilled_def)
  have num: "getNumDeltas exampleFilled = 6" "getNumDeltas exampleNode = 6"
    by (simp_all add: getNumDeltas_def deltas0 exampleFilled_deltas)
  have kinds: "hasType (deltas exampleNode ! nat 4) eventsAdded"
    "hasType (deltas exampleFilled ! nat 4) eventsAdded"
    "hasType (deltas exampleFilled ! nat 5) clipsAdded"
    by (simp_all add: deltas0 exampleFilled_deltas hasType_def createDelta_def)
  have fields: "sequenceEvents exampleNode = []"
    "sequenceEvents exampleFilled = [eventNode 1, eventNode 2]"
    "patternClips exampleFilled = [newSerializedData ''clip'']"
    by (simp_all add: exampleFilled_def exampleNode_def exampleBase_def newAutomationTrackNode_def)
  from getDelta_description [of 4 exampleNode] getDelta_description [of 4 exampleFilled]
    getDelta_description [of 5 exampleFilled] num kinds fields
  show ?thesis by auto
qed

text \<open>
  C9. A call of \<open>getDelta\<close> that returns changes nothing but the description of the delta
  it returns: the node after the call is the node before it with that delta put back at
  its index, and the delta is the stored one up to its description. When the kind of the
  stored delta is neither \<open>eventsAdded\<close> nor \<open>clipsAdded\<close>, the delta and the node are
  returned unchanged. The kinds and the number of the deltas, the payload that
  \<open>getDeltaData\<close> gives at any index, the observable state, the cached beat range and
  the calls received are what they were. \<open>getNumDeltas\<close> returns a number and no node.
\<close>

theorem getDelta_frame:
  assumes "getDelta n i = Inr (d, n')"
  shows "n' = n\<lparr>deltas := (deltas n)[nat i := d]\<rparr> \<and>
         (deltas n ! nat i)\<lparr>description := description d\<rparr> = d \<and>
         (\<not> hasType (deltas n ! nat i) eventsAdded \<and> \<not> hasType (deltas n ! nat i) clipsAdded \<longrightarrow>
            d = deltas n ! nat i \<and> n' = n) \<and>
         map deltaType (deltas n') = map deltaType (deltas n) \<and>
         getNumDeltas n' = getNumDeltas n \<and>
         getDeltaData X n' j = getDeltaData X n j \<and>
         observableState n' = observableState n \<and>
         sequenceBeatRange n' = sequenceBeatRange n \<and>
         calls n' = calls n"
proof -
  from assms have range: "0 \<le> i" "nat i < length (deltas n)"
    by (auto simp: getDelta_def split: if_splits)
  from assms range have upd: "n' = n\<lparr>deltas := (deltas n)[nat i := d]\<rparr>"
    by (auto simp: getDelta_def Let_def describeDelta_def split: if_splits)
  from assms range have d: "(deltas n ! nat i)\<lparr>description := description d\<rparr> = d"
    by (auto simp: getDelta_def Let_def describeDelta_def setDescription_def split: if_splits)
  from assms have scalar:
    "\<not> hasType (deltas n ! nat i) eventsAdded \<and> \<not> hasType (deltas n ! nat i) clipsAdded \<longrightarrow>
       d = deltas n ! nat i \<and> n' = n"
    by (auto simp: getDelta_def Let_def split: if_splits)
  note kinds = getDelta_kinds [OF assms]
  then have len: "length (deltas n') = length (deltas n)" by (metis length_map)
  then have num: "getNumDeltas n' = getNumDeltas n" by (simp add: getNumDeltas_def)
  have same: "getTrackName n' = getTrackName n" "getTrackColour n' = getTrackColour n"
    "getTrackInstrumentId n' = getTrackInstrumentId n"
    "getTrackControllerNumber n' = getTrackControllerNumber n"
    "sequenceEvents n' = sequenceEvents n" "patternClips n' = patternClips n"
    "sequenceBeatRange n' = sequenceBeatRange n" "calls n' = calls n"
    by (simp_all add: upd)
  have data: "getDeltaData X n' j = getDeltaData X n j"
  proof (cases "0 \<le> j \<and> nat j < length (deltas n)")
    case True
    then have "deltaType (deltas n' ! nat j) = map deltaType (deltas n') ! nat j"
      using len by simp
    also have "\<dots> = deltaType (deltas n ! nat j)" using True kinds by simp
    finally have "hasType (deltas n' ! nat j) k = hasType (deltas n ! nat j) k" for k
      by (simp add: hasType_def)
    then show ?thesis
      by (simp add: getDeltaData_def len same scalar_serialize_defs serializeEventsDelta_tree
          serializeClipsDelta_tree Let_def)
  next
    case False
    then show ?thesis by (auto simp: getDeltaData_def len)
  qed
  have obs: "observableState n' = observableState n"
    by (simp add: observableState_def same)
  from upd d scalar kinds num data obs same(7) same(8) show ?thesis
    by blast
qed

theorem getDelta_frame_witness:
  "getDelta exampleFilled 0 = Inr (createDelta emptyDescription trackPath, exampleFilled) \<and>
   \<not> hasType (deltas exampleFilled ! nat 0) eventsAdded \<and>
   \<not> hasType (deltas exampleFilled ! nat 0) clipsAdded \<and>
   getDelta exampleFilled 4 =
     Inr (\<lparr>description = DeltaDescription ''{x} events'' (Some 2), deltaType = eventsAdded\<rparr>,
          exampleFilled\<lparr>deltas := (deltas exampleFilled)
            [4 := \<lparr>description = DeltaDescription ''{x} events'' (Some 2), deltaType = eventsAdded\<rparr>]\<rparr>) \<and>
   observableState (exampleFilled\<lparr>deltas := (deltas exampleFilled)
            [4 := \<lparr>description = DeltaDescription ''{x} events'' (Some 2), deltaType = eventsAdded\<rparr>]\<rparr>)
     = observableState exampleFilled"
proof -
  have first: "getDelta exampleFilled 0 = Inr (createDelta emptyDescription trackPath, exampleFilled)"
    by (simp add: getDelta_def exampleFilled_deltas hasType_def createDelta_def Let_def)
  have scalar: "\<not> hasType (deltas exampleFilled ! nat 0) eventsAdded"
    "\<not> hasType (deltas exampleFilled ! nat 0) clipsAdded"
    by (simp_all add: exampleFilled_deltas hasType_def createDelta_def)
  have events: "sequenceEvents exampleFilled = [eventNode 1, eventNode 2]"
    by (simp add: exampleFilled_def)
  have fifth: "getDelta exampleFilled 4 =
     Inr (\<lparr>description = DeltaDescription ''{x} events'' (Some 2), deltaType = eventsAdded\<rparr>,
          exampleFilled\<lparr>deltas := (deltas exampleFilled)
            [4 := \<lparr>description = DeltaDescription ''{x} events'' (Some 2), deltaType = eventsAdded\<rparr>]\<rparr>)"
    by (simp add: getDelta_def exampleFilled_deltas events hasType_def createDelta_def Let_def
        describeDelta_def setDescription_def)
  from getDelta_frame [OF first, of exampleExternals 0]
    getDelta_frame [OF fifth, of exampleExternals 0] first fifth scalar
  show ?thesis by simp
qed

end
